theory Spec2Isabelle
  imports Main
begin

section \<open>Values, errors and the two request shapes\<close>

text \<open>
  The library (\<^verbatim>\<open>src/index.ts\<close>) is glue over four facilities of the host platform:
  the \<^verbatim>\<open>Request\<close> constructor and the \<^verbatim>\<open>URL\<close> parser, \<^verbatim>\<open>URLSearchParams\<close>,
  \<^verbatim>\<open>TextDecoder\<close> and \<^verbatim>\<open>JSON.parse\<close>.  Strings are byte strings (ASCII text is
  represented exactly), a thrown error is a value of type \<open>error\<close>, and a JavaScript
  value is a \<open>js_value\<close>; the number type is left open, since no operation of the
  library computes with numbers.

  \<open>Unmodelled\<close> is not a JavaScript error: the reference platform below answers with
  it where an input lies outside the fragment of a standard algorithm that it
  implements.
\<close>

datatype error = TypeError | RangeError | SyntaxError | StreamError string | Unmodelled

datatype 'n js_value =
    JNull
  | JBool bool
  | JNum 'n
  | JStr string
  | JArr "'n js_value list"
  | JObj "(string \<times> 'n js_value) list"

type_synonym bytes = string

type_synonym entries = "(string \<times> string) list"

text \<open>
  A Node.js \<^verbatim>\<open>IncomingMessage\<close>, as far as \<^verbatim>\<open>toWebRequest\<close> reads it: \<open>req_method\<close> (the
  property \<^verbatim>\<open>method\<close>) and \<open>url\<close> may be \<^verbatim>\<open>undefined\<close>, \<open>headers\<close> lists the own properties of the header
  object, and \<open>stream\<close> is what reading the message to its end gives: the bytes, or the
  error the stream fails with.
\<close>

record incoming_message =
  req_method :: "string option"
  url :: "string option"
  headers :: entries
  stream :: "error + bytes"

text \<open>
  A web-standard \<^verbatim>\<open>Request\<close>.  The body is absent (\<^verbatim>\<open>null\<close>) or a byte source; a
  source that cannot be read (a failing stream, a body that was already consumed) is
  the error its read rejects with.
\<close>

record web_request =
  request_method :: string
  request_url :: string
  request_headers :: entries
  request_body :: "(error + bytes) option"

datatype request = WebRequest web_request | NodeRequest incoming_message

text \<open>The \<^verbatim>\<open>RequestInit\<close> dictionary that \<^verbatim>\<open>toWebRequest\<close> builds (lines 21 to 26).\<close>

record request_init =
  init_method :: "string option"
  init_headers :: entries
  init_body :: "(error + bytes) option"
  duplex :: string

text \<open>
  Modelled from the spec: the declaration of \<^verbatim>\<open>IBodyOptions\<close> (\<^verbatim>\<open>src/type.ts\<close>) is
  not among the sources; the spec's \<^verbatim>\<open>ParseOptions\<close> gives its five optional fields.
  \<open>onError\<close> is a callback of type \<^verbatim>\<open>(err: Error) => void\<close>.  Its value is ignored, so
  the model keeps what a call does to the control flow: for the error it is called with,
  \<open>None\<close> when the call returns and \<open>Some e\<close> when the call throws \<open>e\<close>.
\<close>

record body_options =
  encoding :: "string option"
  raw :: "bool option"
  contentType :: "string option"
  backContentType :: "string option"
  onError :: "(error \<Rightarrow> error option) option"

section \<open>The platform\<close>

text \<open>
  A parsed \<^verbatim>\<open>URL\<close> object: its serialisation, the entries of its \<^verbatim>\<open>searchParams\<close>,
  and whether it carries a user name or password.
\<close>

record url_record =
  href :: string
  searchParams :: entries
  credentials :: bool

text \<open>
  The standard algorithms the library calls are parameters of the model:
  \<^verbatim>\<open>new URL(s)\<close>, \<^verbatim>\<open>new URLSearchParams(s)\<close>, \<^verbatim>\<open>new TextDecoder(label).decode(bytes)\<close>
  and \<^verbatim>\<open>JSON.parse(s)\<close>, each returning its result or the error it throws.
\<close>

record 'n platform =
  URL_parse :: "string \<Rightarrow> error + url_record"
  URLSearchParams :: "string \<Rightarrow> error + entries"
  TextDecoder_decode :: "string \<Rightarrow> bytes \<Rightarrow> error + string"
  JSON_parse :: "string \<Rightarrow> error + 'n js_value"

subsection \<open>Strings and objects\<close>

text \<open>\<^verbatim>\<open>s.startsWith(p)\<close>: a comparison of code units, case-sensitive.\<close>

fun startsWith :: "string \<Rightarrow> string \<Rightarrow> bool" where
  "startsWith s [] = True"
| "startsWith [] (p # ps) = False"
| "startsWith (c # cs) (p # ps) = (c = p \<and> startsWith cs ps)"

text \<open>
  \<^verbatim>\<open>a || b\<close> on optional strings: \<^verbatim>\<open>undefined\<close>, \<^verbatim>\<open>null\<close> and the empty string are
  falsy.  \<open>or_else\<close> is the case where the right operand is a string literal.
\<close>

fun truthy :: "string option \<Rightarrow> bool" where
  "truthy None = False"
| "truthy (Some s) = (s \<noteq> [])"

definition js_or :: "string option \<Rightarrow> string option \<Rightarrow> string option" where
  "js_or a b = (if truthy a then a else b)"

fun or_else :: "string option \<Rightarrow> string \<Rightarrow> string" where
  "or_else None d = d"
| "or_else (Some s) d = (if s \<noteq> [] then s else d)"

text \<open>
  Objects list their properties in creation order.  Assigning a property that exists
  replaces its value in place; \<^verbatim>\<open>Object.fromEntries\<close> assigns the entries in order.
\<close>

fun set_property :: "string \<Rightarrow> 'v \<Rightarrow> (string \<times> 'v) list \<Rightarrow> (string \<times> 'v) list" where
  "set_property k v [] = [(k, v)]"
| "set_property k v (p # ps) = (if fst p = k then (k, v) # ps else p # set_property k v ps)"

definition Object_fromEntries :: "(string \<times> 'v) list \<Rightarrow> (string \<times> 'v) list" where
  "Object_fromEntries es = foldl (\<lambda>obj kv. set_property (fst kv) (snd kv) obj) [] es"

definition Object_entries :: "(string \<times> 'v) list \<Rightarrow> (string \<times> 'v) list" where
  "Object_entries obj = obj"

text \<open>An object whose property values are strings, as a JavaScript value.\<close>

definition string_record :: "entries \<Rightarrow> 'n js_value" where
  "string_record es = JObj (map (\<lambda>kv. (fst kv, JStr (snd kv))) es)"

subsection \<open>Header lists and the Request constructor\<close>

definition upper_letters :: string where
  "upper_letters = ''ABCDEFGHIJKLMNOPQRSTUVWXYZ''"

definition lower_letters :: string where
  "lower_letters = ''abcdefghijklmnopqrstuvwxyz''"

definition digit_chars :: string where
  "digit_chars = ''0123456789''"

definition lower_char :: "char \<Rightarrow> char" where
  "lower_char c = (case map_of (zip upper_letters lower_letters) c of None \<Rightarrow> c | Some l \<Rightarrow> l)"

definition upper_char :: "char \<Rightarrow> char" where
  "upper_char c = (case map_of (zip lower_letters upper_letters) c of None \<Rightarrow> c | Some u \<Rightarrow> u)"

text \<open>The \<^verbatim>\<open>token\<close> production of HTTP: method names and header names.\<close>

definition is_tchar :: "char \<Rightarrow> bool" where
  "is_tchar c = (c \<in> set upper_letters \<or> c \<in> set lower_letters \<or> c \<in> set digit_chars
      \<or> c \<in> set [CHR ''!'', CHR ''#'', CHR ''$'', CHR ''%'', CHR ''&'', CHR 0x27, CHR ''*'',
                 CHR ''+'', CHR ''-'', CHR ''.'', CHR ''^'', CHR ''_'', CHR 0x60, CHR ''|'', CHR ''~''])"

definition is_token :: "string \<Rightarrow> bool" where
  "is_token s = (s \<noteq> [] \<and> list_all is_tchar s)"

definition http_whitespace :: "char \<Rightarrow> bool" where
  "http_whitespace c = (c \<in> set [CHR 0x0A, CHR 0x0D, CHR 0x09, CHR 0x20])"

definition normalize_header_value :: "string \<Rightarrow> string" where
  "normalize_header_value v =
     rev (dropWhile http_whitespace (rev (dropWhile http_whitespace v)))"

definition is_header_value :: "string \<Rightarrow> bool" where
  "is_header_value v = list_all (\<lambda>c. c \<notin> set [CHR 0x00, CHR 0x0A, CHR 0x0D]) v"

text \<open>
  Filling a \<^verbatim>\<open>Headers\<close> object from a record: every entry is appended with its value
  normalised; a name that is not a token or a value with a forbidden byte throws.
\<close>

fun Headers_fill :: "entries \<Rightarrow> error + entries" where
  "Headers_fill [] = Inr []"
| "Headers_fill (kv # rest) =
     (if is_token (fst kv) \<and> is_header_value (normalize_header_value (snd kv))
      then (case Headers_fill rest of
              Inl e \<Rightarrow> Inl e
            | Inr hs \<Rightarrow> Inr ((fst kv, normalize_header_value (snd kv)) # hs))
      else Inl TypeError)"

fun join_values :: "string list \<Rightarrow> string" where
  "join_values [] = []"
| "join_values [v] = v"
| "join_values (v # w # vs) = v @ '', '' @ join_values (w # vs)"

text \<open>
  \<^verbatim>\<open>headers.get(name)\<close>: names match without regard to ASCII case; \<^verbatim>\<open>null\<close> when there
  is no such header, the values joined by a comma and a space otherwise.
\<close>

definition Headers_get :: "entries \<Rightarrow> string \<Rightarrow> string option" where
  "Headers_get hs name =
     (case map snd (filter (\<lambda>kv. map lower_char (fst kv) = map lower_char name) hs) of
        [] \<Rightarrow> None
      | vs \<Rightarrow> Some (join_values vs))"

text \<open>
  The method of a new request: \<^verbatim>\<open>GET\<close> when the init has none; a method that is not a
  token, or is one of the forbidden methods, throws; the six standard methods are
  brought to upper case.
\<close>

definition init_request_method :: "string option \<Rightarrow> error + string" where
  "init_request_method m =
     (case m of
        None \<Rightarrow> Inr ''GET''
      | Some s \<Rightarrow>
          if \<not> is_token s \<or> map upper_char s \<in> set [''CONNECT'', ''TRACE'', ''TRACK'']
          then Inl TypeError
          else if map upper_char s \<in> set [''DELETE'', ''GET'', ''HEAD'', ''OPTIONS'', ''POST'', ''PUT'']
          then Inr (map upper_char s)
          else Inr s)"

text \<open>
  \<^verbatim>\<open>new Request(input, init)\<close> for a string \<open>input\<close>, after the constructor steps of the
  Fetch standard that can be observed here: the input is parsed as a URL (a failure
  throws, as does a URL with credentials), the method is checked and normalised, the
  headers are filled, and a body together with the method \<^verbatim>\<open>GET\<close> or \<^verbatim>\<open>HEAD\<close> throws.
  The request keeps the serialised URL and the body source it was given.
\<close>

definition new_Request :: "'n platform \<Rightarrow> string \<Rightarrow> request_init \<Rightarrow> error + web_request" where
  "new_Request P input init =
     (case URL_parse P input of
        Inl e \<Rightarrow> Inl e
      | Inr parsedURL \<Rightarrow>
          if credentials parsedURL then Inl TypeError
          else (case init_request_method (init_method init) of
                  Inl e \<Rightarrow> Inl e
                | Inr m \<Rightarrow>
                    (case Headers_fill (init_headers init) of
                       Inl e \<Rightarrow> Inl e
                     | Inr hs \<Rightarrow>
                         if init_body init \<noteq> None \<and> (m = ''GET'' \<or> m = ''HEAD'')
                         then Inl TypeError
                         else Inr \<lparr>request_method = m, request_url = href parsedURL,
                                   request_headers = hs, request_body = init_body init\<rparr>)))"

text \<open>
  \<^verbatim>\<open>request.arrayBuffer()\<close>: an empty buffer when there is no body, the outcome of
  reading the body source otherwise.
\<close>

definition arrayBuffer :: "web_request \<Rightarrow> error + bytes" where
  "arrayBuffer webReq = (case request_body webReq of None \<Rightarrow> Inr [] | Some r \<Rightarrow> r)"

section \<open>A reference platform\<close>

text \<open>
  Concrete runs need concrete platform functions.  \<open>ref_platform\<close> implements the
  standard algorithms on a fragment of their inputs and answers \<open>Unmodelled\<close>
  outside it:
  \<^item> URLs \<^verbatim>\<open>http(s)://host[:port][/path][?query][#fragment]\<close> with a host of lower-case
    letters and with path, query and fragment made of characters that the URL parser
    copies unchanged, the path without \<^verbatim>\<open>.\<close> and \<^verbatim>\<open>..\<close> segments;
  \<^item> form-urlencoded text whose decoded names and values are ASCII;
  \<^item> the UTF-8 decoder on ASCII bytes;
  \<^item> JSON texts whose numbers are integer literals of magnitude at most \<open>2^53\<close> and whose
    strings have no \<^verbatim>\<open>\u\<close> escapes.
\<close>

subsection \<open>application/x-www-form-urlencoded\<close>

fun split_on :: "char \<Rightarrow> string \<Rightarrow> string list" where
  "split_on d [] = [[]]"
| "split_on d (c # cs) =
     (if c = d then [] # split_on d cs
      else (case split_on d cs of [] \<Rightarrow> [[c]] | w # ws \<Rightarrow> (c # w) # ws))"

definition hex_value :: "char \<Rightarrow> nat option" where
  "hex_value c = map_of (zip ''0123456789abcdefABCDEF''
                   [0, 1, 2, 3, 4, 5, 6, 7, 8, 9, 10, 11, 12, 13, 14, 15, 10, 11, 12, 13, 14, 15]) c"

fun percent_decode :: "string \<Rightarrow> string" where
  "percent_decode [] = []"
| "percent_decode [c] = [c]"
| "percent_decode [c, d] = [c, d]"
| "percent_decode (c # h # l # rest) =
     (if c = CHR ''%'' \<and> hex_value h \<noteq> None \<and> hex_value l \<noteq> None
      then char_of (16 * the (hex_value h) + the (hex_value l)) # percent_decode rest
      else c # percent_decode (h # l # rest))"

definition is_ascii :: "string \<Rightarrow> bool" where
  "is_ascii s = list_all (\<lambda>c. \<not> digit7 c) s"

definition plus_to_space :: "string \<Rightarrow> string" where
  "plus_to_space s = map (\<lambda>c. if c = CHR ''+'' then CHR '' '' else c) s"

definition decode_component :: "string \<Rightarrow> string" where
  "decode_component s = percent_decode (plus_to_space s)"

definition urlencoded_pair :: "string \<Rightarrow> string \<times> string" where
  "urlencoded_pair sq =
     (decode_component (takeWhile (\<lambda>c. c \<noteq> CHR ''='') sq),
      decode_component (drop 1 (dropWhile (\<lambda>c. c \<noteq> CHR ''='') sq)))"

definition urlencoded_parse :: "string \<Rightarrow> error + entries" where
  "urlencoded_parse s =
     (if list_all (\<lambda>kv. is_ascii (fst kv) \<and> is_ascii (snd kv))
           (map urlencoded_pair (filter (\<lambda>sq. sq \<noteq> []) (split_on CHR ''&'' s)))
      then Inr (map urlencoded_pair (filter (\<lambda>sq. sq \<noteq> []) (split_on CHR ''&'' s)))
      else Inl Unmodelled)"

text \<open>The constructor drops one leading question mark.\<close>

definition ref_URLSearchParams :: "string \<Rightarrow> error + entries" where
  "ref_URLSearchParams s = urlencoded_parse (if startsWith s ''?'' then drop 1 s else s)"

subsection \<open>URLs\<close>

definition is_alnum :: "char \<Rightarrow> bool" where
  "is_alnum c = (c \<in> set upper_letters \<or> c \<in> set lower_letters \<or> c \<in> set digit_chars)"

definition path_plain :: "char \<Rightarrow> bool" where
  "path_plain c = (is_alnum c \<or> c \<in> set ''/-_~.'')"

text \<open>The URL parser removes the segments \<^verbatim>\<open>.\<close> and \<^verbatim>\<open>..\<close> from a path.\<close>

definition no_dot_segments :: "string \<Rightarrow> bool" where
  "no_dot_segments path =
     list_all (\<lambda>seg. seg \<noteq> ''.'' \<and> seg \<noteq> ''..'') (split_on CHR ''/'' path)"

definition query_plain :: "char \<Rightarrow> bool" where
  "query_plain c = (is_alnum c \<or> c \<in> set ''-._~=&+%'')"

definition fragment_plain :: "char \<Rightarrow> bool" where
  "fragment_plain c = (is_alnum c \<or> c \<in> set ''-._~'')"

definition digits_value :: "string \<Rightarrow> int" where
  "digits_value ds = foldl (\<lambda>n c. 10 * n + (of_char c - 48)) 0 ds"

definition strip_zeros :: "string \<Rightarrow> string" where
  "strip_zeros ds =
     (if dropWhile (\<lambda>c. c = CHR ''0'') ds = [] then ''0'' else dropWhile (\<lambda>c. c = CHR ''0'') ds)"

text \<open>
  The port of an authority, serialised: nothing for no port, an empty port or the
  scheme's default port.  A port with a character that is no digit, or above 65535,
  fails.
\<close>

definition port_suffix :: "int \<Rightarrow> string \<Rightarrow> error + string" where
  "port_suffix default_port p =
     (case p of
        [] \<Rightarrow> Inr []
      | c # ds \<Rightarrow>
          if ds = [] then Inr []
          else if \<not> list_all (\<lambda>d. d \<in> set digit_chars) ds then Inl TypeError
          else if 65535 < digits_value ds then Inl TypeError
          else if digits_value ds = default_port then Inr []
          else Inr (CHR '':'' # strip_zeros ds))"

text \<open>Everything after \<^verbatim>\<open>scheme://\<close>.\<close>

definition parse_after_scheme :: "string \<Rightarrow> int \<Rightarrow> string \<Rightarrow> error + url_record" where
  "parse_after_scheme scheme default_port rest =
     (let authority = takeWhile (\<lambda>c. c \<notin> set [CHR ''/'', CHR 0x5C, CHR ''?'', CHR ''#'']) rest;
          after = dropWhile (\<lambda>c. c \<notin> set [CHR ''/'', CHR 0x5C, CHR ''?'', CHR ''#'']) rest;
          host = takeWhile (\<lambda>c. c \<noteq> CHR '':'') authority;
          port = dropWhile (\<lambda>c. c \<noteq> CHR '':'') authority;
          path = takeWhile (\<lambda>c. c \<noteq> CHR ''?'' \<and> c \<noteq> CHR ''#'') after;
          after_path = dropWhile (\<lambda>c. c \<noteq> CHR ''?'' \<and> c \<noteq> CHR ''#'') after;
          has_query = startsWith after_path ''?'';
          query = (if has_query then takeWhile (\<lambda>c. c \<noteq> CHR ''#'') (drop 1 after_path) else []);
          fragment = (if has_query then dropWhile (\<lambda>c. c \<noteq> CHR ''#'') (drop 1 after_path)
                      else after_path)
      in if startsWith rest ''/'' \<or> startsWith rest [CHR 0x5C]
            \<or> CHR ''@'' \<in> set authority \<or> CHR ''['' \<in> set authority
         then Inl Unmodelled
         else if host = [] then Inl TypeError
         else if \<not> list_all (\<lambda>c. c \<in> set lower_letters) host then Inl Unmodelled
         else (case port_suffix default_port port of
                 Inl e \<Rightarrow> Inl e
               | Inr port_text \<Rightarrow>
                   if \<not> (list_all path_plain path \<and> no_dot_segments path
                         \<and> list_all query_plain query
                         \<and> list_all fragment_plain (drop 1 fragment))
                   then Inl Unmodelled
                   else (case urlencoded_parse query of
                           Inl e \<Rightarrow> Inl e
                         | Inr params \<Rightarrow>
                             Inr \<lparr>href = scheme @ ''://'' @ host @ port_text
                                          @ (if path = [] then ''/'' else path)
                                          @ (if has_query then CHR ''?'' # query else [])
                                          @ fragment,
                                  searchParams = params,
                                  credentials = False\<rparr>)))"

definition ref_URL_parse :: "string \<Rightarrow> error + url_record" where
  "ref_URL_parse s =
     (if startsWith s ''http://'' then parse_after_scheme ''http'' 80 (drop 7 s)
      else if startsWith s ''https://'' then parse_after_scheme ''https'' 443 (drop 8 s)
      else Inl Unmodelled)"

subsection \<open>Text decoding\<close>

definition ascii_whitespace :: "char \<Rightarrow> bool" where
  "ascii_whitespace c = (c \<in> set [CHR 0x09, CHR 0x0A, CHR 0x0C, CHR 0x0D, CHR 0x20])"

definition encoding_label :: "string \<Rightarrow> string" where
  "encoding_label l =
     map lower_char (rev (dropWhile ascii_whitespace (rev (dropWhile ascii_whitespace l))))"

definition ref_TextDecoder_decode :: "string \<Rightarrow> bytes \<Rightarrow> error + string" where
  "ref_TextDecoder_decode label ab =
     (if encoding_label label \<in> set [''utf-8'', ''utf8'', ''unicode-1-1-utf-8'', ''unicode11utf8'',
                                      ''unicode20utf8'', ''x-unicode20utf8'']
         \<and> is_ascii ab
      then Inr ab else Inl Unmodelled)"

subsection \<open>JSON\<close>

definition json_space :: "char \<Rightarrow> bool" where
  "json_space c = (c \<in> set [CHR 0x20, CHR 0x09, CHR 0x0A, CHR 0x0D])"

definition skip_ws :: "string \<Rightarrow> string" where
  "skip_ws cs = dropWhile json_space cs"

definition json_escape :: "char \<Rightarrow> char option" where
  "json_escape e = map_of [(CHR 0x22, CHR 0x22), (CHR 0x5C, CHR 0x5C), (CHR ''/'', CHR ''/''),
                           (CHR ''b'', CHR 0x08), (CHR ''f'', CHR 0x0C), (CHR ''n'', CHR 0x0A),
                           (CHR ''r'', CHR 0x0D), (CHR ''t'', CHR 0x09)] e"

definition is_control :: "char \<Rightarrow> bool" where
  "is_control c = (\<not> digit7 c \<and> \<not> digit6 c \<and> \<not> digit5 c)"

text \<open>The characters of a string after its opening quote; \<open>acc\<close> collects them in reverse.\<close>

fun json_string :: "string \<Rightarrow> string \<Rightarrow> error + (string \<times> string)" where
  "json_string [] acc = Inl SyntaxError"
| "json_string [c] acc = (if c = CHR 0x22 then Inr (rev acc, []) else Inl SyntaxError)"
| "json_string (c # e # rest) acc =
     (if c = CHR 0x22 then Inr (rev acc, e # rest)
      else if c = CHR 0x5C
      then (case json_escape e of
              Some x \<Rightarrow> json_string rest (x # acc)
            | None \<Rightarrow> if e = CHR ''u'' then Inl Unmodelled else Inl SyntaxError)
      else if is_control c then Inl SyntaxError
      else json_string (e # rest) (c # acc))"

definition json_number :: "string \<Rightarrow> error + (int js_value \<times> string)" where
  "json_number cs =
     (let negative = startsWith cs ''-'';
          ds = (if negative then drop 1 cs else cs);
          int_part = (if startsWith ds ''0'' then ''0'' else takeWhile (\<lambda>c. c \<in> set digit_chars) ds);
          rest = drop (length int_part) ds
      in if int_part = [] then Inl SyntaxError
         else if startsWith rest ''.'' \<or> startsWith rest ''e'' \<or> startsWith rest ''E''
         then Inl Unmodelled
         else if (negative \<and> digits_value int_part = 0) \<or> 9007199254740992 < digits_value int_part
         then Inl Unmodelled
         else Inr (JNum (if negative then - digits_value int_part else digits_value int_part), rest))"

fun json_value :: "nat \<Rightarrow> string \<Rightarrow> error + (int js_value \<times> string)"
  and json_elements :: "nat \<Rightarrow> int js_value list \<Rightarrow> string \<Rightarrow> error + (int js_value \<times> string)"
  and json_members ::
    "nat \<Rightarrow> (string \<times> int js_value) list \<Rightarrow> string \<Rightarrow> error + (int js_value \<times> string)"
where
  "json_value 0 cs = Inl Unmodelled"
| "json_value (Suc n) cs =
     (case skip_ws cs of
        [] \<Rightarrow> Inl SyntaxError
      | c # rest \<Rightarrow>
          if c = CHR ''{''
          then (if startsWith (skip_ws rest) ''}'' then Inr (JObj [], drop 1 (skip_ws rest))
                else json_members n [] rest)
          else if c = CHR ''[''
          then (if startsWith (skip_ws rest) '']'' then Inr (JArr [], drop 1 (skip_ws rest))
                else json_elements n [] rest)
          else if c = CHR 0x22
          then (case json_string rest [] of
                  Inl e \<Rightarrow> Inl e
                | Inr sr \<Rightarrow> Inr (JStr (fst sr), snd sr))
          else if startsWith (c # rest) ''true'' then Inr (JBool True, drop 3 rest)
          else if startsWith (c # rest) ''false'' then Inr (JBool False, drop 4 rest)
          else if startsWith (c # rest) ''null'' then Inr (JNull, drop 3 rest)
          else if c = CHR ''-'' \<or> c \<in> set digit_chars then json_number (c # rest)
          else Inl SyntaxError)"
| "json_elements 0 acc cs = Inl Unmodelled"
| "json_elements (Suc n) acc cs =
     (case json_value n cs of
        Inl e \<Rightarrow> Inl e
      | Inr vr \<Rightarrow>
          (case skip_ws (snd vr) of
             [] \<Rightarrow> Inl SyntaxError
           | c # rest \<Rightarrow>
               if c = CHR '','' then json_elements n (acc @ [fst vr]) rest
               else if c = CHR '']'' then Inr (JArr (acc @ [fst vr]), rest)
               else Inl SyntaxError))"
| "json_members 0 acc cs = Inl Unmodelled"
| "json_members (Suc n) acc cs =
     (case skip_ws cs of
        [] \<Rightarrow> Inl SyntaxError
      | q # after_quote \<Rightarrow>
          if q \<noteq> CHR 0x22 then Inl SyntaxError
          else (case json_string after_quote [] of
                  Inl e \<Rightarrow> Inl e
                | Inr kr \<Rightarrow>
                    (case skip_ws (snd kr) of
                       [] \<Rightarrow> Inl SyntaxError
                     | colon # after_colon \<Rightarrow>
                         if colon \<noteq> CHR '':'' then Inl SyntaxError
                         else (case json_value n after_colon of
                                 Inl e \<Rightarrow> Inl e
                               | Inr vr \<Rightarrow>
                                   (case skip_ws (snd vr) of
                                      [] \<Rightarrow> Inl SyntaxError
                                    | c # rest \<Rightarrow>
                                        if c = CHR '',''
                                        then json_members n (set_property (fst kr) (fst vr) acc) rest
                                        else if c = CHR ''}''
                                        then Inr (JObj (set_property (fst kr) (fst vr) acc), rest)
                                        else Inl SyntaxError)))))"

text \<open>A JSON text is one value with nothing but white space after it.\<close>

definition ref_JSON_parse :: "string \<Rightarrow> error + int js_value" where
  "ref_JSON_parse s =
     (case json_value (Suc (length s)) s of
        Inl e \<Rightarrow> Inl e
      | Inr vr \<Rightarrow> if skip_ws (snd vr) = [] then Inr (fst vr) else Inl SyntaxError)"

definition ref_platform :: "int platform" where
  "ref_platform =
     \<lparr>URL_parse = ref_URL_parse, URLSearchParams = ref_URLSearchParams,
      TextDecoder_decode = ref_TextDecoder_decode, JSON_parse = ref_JSON_parse\<rparr>"

section \<open>The library\<close>

subsection \<open>toWebRequest\<close>

text \<open>
  Line 19: \<^verbatim>\<open>url?.startsWith('http') ? url : `http://localhost${url}`\<close>.  An undefined
  \<open>url\<close> makes the test falsy and is printed as \<^verbatim>\<open>undefined\<close> by the template.
\<close>

definition fullUrl :: "incoming_message \<Rightarrow> string" where
  "fullUrl nodeReq =
     (case url nodeReq of
        None \<Rightarrow> ''http://localhost'' @ ''undefined''
      | Some u \<Rightarrow> if startsWith u ''http'' then u else ''http://localhost'' @ u)"

text \<open>Lines 20 to 26: the body is the message itself unless the method is \<^verbatim>\<open>GET\<close> or \<^verbatim>\<open>HEAD\<close>.\<close>

definition requestInit :: "incoming_message \<Rightarrow> request_init" where
  "requestInit nodeReq =
     \<lparr>init_method = req_method nodeReq,
      init_headers = Object_fromEntries (Object_entries (headers nodeReq)),
      init_body = (if req_method nodeReq = Some ''GET'' \<or> req_method nodeReq = Some ''HEAD''
                   then None else Some (stream nodeReq)),
      duplex = ''half''\<rparr>"

definition toWebRequest :: "'n platform \<Rightarrow> request \<Rightarrow> error + web_request" where
  "toWebRequest P req =
     (case req of
        WebRequest r \<Rightarrow> Inr r
      | NodeRequest nodeReq \<Rightarrow> new_Request P (fullUrl nodeReq) (requestInit nodeReq))"

subsection \<open>getParams\<close>

definition getParams :: "'n platform \<Rightarrow> request \<Rightarrow> error + entries" where
  "getParams P req =
     (case toWebRequest P req of
        Inl e \<Rightarrow> Inl e
      | Inr webReq \<Rightarrow>
          (case URL_parse P (request_url webReq) of
             Inl e \<Rightarrow> Inl e
           | Inr u \<Rightarrow> Inr (Object_fromEntries (searchParams u))))"

subsection \<open>getBody\<close>

text \<open>Line 95: the content type that the dispatch looks at.\<close>

definition effective_contentType :: "body_options \<Rightarrow> web_request \<Rightarrow> string" where
  "effective_contentType options webReq =
     or_else (js_or (js_or (contentType options)
                           (Headers_get (request_headers webReq) ''content-type''))
                    (backContentType options)) ''''"

text \<open>
  Lines 96 to 108: the chain of prefix tests on the content type, applied to the
  decoded text.
\<close>

definition dispatch :: "'n platform \<Rightarrow> string \<Rightarrow> string \<Rightarrow> error + 'n js_value" where
  "dispatch P content_type buffer =
     (if startsWith content_type ''application/json'' then JSON_parse P buffer
      else if startsWith content_type ''application/x-www-form-urlencoded''
      then (case URLSearchParams P buffer of
              Inl e \<Rightarrow> Inl e
            | Inr es \<Rightarrow> Inr (string_record (Object_fromEntries es)))
      else if startsWith content_type ''text/plain'' then Inr (JObj [(''text'', JStr buffer)])
      else if startsWith content_type ''multipart/form-data'' then Inr (JObj [(''raw'', JStr buffer)])
      else Inr (JObj [(''raw'', JStr buffer)]))"

text \<open>
  The \<^verbatim>\<open>try\<close> block, lines 85 to 108: \<open>Inl\<close> is an error thrown inside the block, \<open>Inr\<close>
  the value it returns.
\<close>

definition getBody_try :: "'n platform \<Rightarrow> web_request \<Rightarrow> body_options \<Rightarrow> error + 'n js_value" where
  "getBody_try P webReq options =
     (case arrayBuffer webReq of
        Inl e \<Rightarrow> Inl e
      | Inr ab \<Rightarrow>
          (case TextDecoder_decode P (or_else (encoding options) ''utf-8'') ab of
             Inl e \<Rightarrow> Inl e
           | Inr buffer \<Rightarrow>
               if buffer = [] then Inr (JObj [])
               else if raw options = Some True then Inr (JObj [(''raw'', JStr buffer)])
               else dispatch P (effective_contentType options webReq) buffer))"

text \<open>
  The \<^verbatim>\<open>catch\<close> clause, lines 110 to 115.  The result is the settlement of the promise
  (\<open>Inl\<close> rejects, \<open>Inr\<close> resolves) and the errors \<open>onError\<close> was called with, in order.
  The handler is called inside the \<^verbatim>\<open>catch\<close> clause with nothing around it: when it
  throws, \<^verbatim>\<open>return {}\<close> is not reached and the promise rejects with the error thrown.
\<close>

definition getBody_catch ::
  "body_options \<Rightarrow> error + 'n js_value \<Rightarrow> (error + 'n js_value) \<times> error list" where
  "getBody_catch options r =
     (case r of
        Inr v \<Rightarrow> (Inr v, [])
      | Inl err \<Rightarrow>
          (case onError options of
             None \<Rightarrow> (Inr (JObj []), [])
           | Some h \<Rightarrow>
               (case h err of
                  None \<Rightarrow> (Inr (JObj []), [err])
                | Some thrown \<Rightarrow> (Inl thrown, [err]))))"

text \<open>
  \<^verbatim>\<open>getBody\<close>: the call of \<^verbatim>\<open>toWebRequest\<close> on line 83 stands before the \<^verbatim>\<open>try\<close>, so an
  error it throws rejects the promise of the \<^verbatim>\<open>async\<close> function.
\<close>

definition getBody ::
  "'n platform \<Rightarrow> request \<Rightarrow> body_options \<Rightarrow> (error + 'n js_value) \<times> error list" where
  "getBody P req options =
     (case toWebRequest P req of
        Inl e \<Rightarrow> (Inl e, [])
      | Inr webReq \<Rightarrow> getBody_catch options (getBody_try P webReq options))"

section \<open>The spec's words, and example inputs\<close>

text \<open>
  The spec's precedence rule for the content type: of the candidates in order, the
  first that is present and not empty; the empty string when there is none.
\<close>

fun first_non_empty :: "string option list \<Rightarrow> string" where
  "first_non_empty [] = []"
| "first_non_empty (None # xs) = first_non_empty xs"
| "first_non_empty (Some s # xs) = (if s = [] then first_non_empty xs else s)"

text \<open>
  The query component of a path: the text between the first question mark and the
  fragment, empty when the path has no question mark before its fragment.
\<close>

definition query_component :: "string \<Rightarrow> string" where
  "query_component p =
     drop 1 (dropWhile (\<lambda>c. c \<noteq> CHR ''?'') (takeWhile (\<lambda>c. c \<noteq> CHR ''#'') p))"


text \<open>
  What the URL standard lets one expect of a parsed URL, stated for one input \<open>s\<close>:
  the search parameters are the form-urlencoded entries of the query component of
  \<open>s\<close>, and parsing the serialisation gives the same search parameters again.
\<close>

definition reports_query :: "'n platform \<Rightarrow> string \<Rightarrow> bool" where
  "reports_query P s =
     (case URL_parse P s of
        Inl e \<Rightarrow> True
      | Inr u \<Rightarrow>
          URLSearchParams P (query_component s) = Inr (searchParams u)
          \<and> (case URL_parse P (href u) of
                Inl e \<Rightarrow> False
              | Inr u' \<Rightarrow> searchParams u' = searchParams u))"

definition no_options :: body_options where
  "no_options = \<lparr>encoding = None, raw = None, contentType = None, backContentType = None,
                 onError = None\<rparr>"

text \<open>A handler that returns, and one that throws the error it is given.\<close>

definition observer :: "error \<Rightarrow> error option" where
  "observer err = None"

definition rethrowing :: "error \<Rightarrow> error option" where
  "rethrowing err = Some err"

text \<open>A legacy request with the given method, url, content type and body bytes.\<close>

definition node_request :: "string \<Rightarrow> string \<Rightarrow> string \<Rightarrow> bytes \<Rightarrow> request" where
  "node_request m u ct b =
     NodeRequest \<lparr>req_method = Some m, url = Some u, headers = [(''content-type'', ct)],
                  stream = Inr b\<rparr>"

section \<open>Basic facts\<close>

lemma startsWith_append: "startsWith (p @ r) p"
  by (induction p) auto

lemma startsWith_iff: "startsWith s p \<longleftrightarrow> (\<exists>r. s = p @ r)"
  by (induction s p rule: startsWith.induct) auto

lemma map_of_set_property: "map_of (set_property k v ps) = (map_of ps)(k \<mapsto> v)"
  by (induction ps) (auto simp: fun_eq_iff)

lemma keys_set_property: "fst ` set (set_property k v ps) = insert k (fst ` set ps)"
  by (induction ps) auto

lemma distinct_set_property:
  "distinct (map fst ps) \<Longrightarrow> distinct (map fst (set_property k v ps))"
proof (induction ps)
  case Nil
  show ?case by simp
next
  case (Cons p ps)
  show ?case
  proof (cases "fst p = k")
    case True
    with Cons.prems show ?thesis by simp
  next
    case False
    from Cons.prems have "fst p \<notin> fst ` set ps" and "distinct (map fst ps)" by simp_all
    with False Cons.IH show ?thesis by (simp add: keys_set_property)
  qed
qed

lemma foldl_set_property:
  "map_of (foldl (\<lambda>obj kv. set_property (fst kv) (snd kv) obj) acc es) = map_of (rev es @ acc)"
  by (induction es arbitrary: acc)
     (auto simp: map_of_set_property fun_eq_iff map_add_def split: option.splits)

text \<open>Looking a key up in \<^verbatim>\<open>Object.fromEntries(es)\<close> finds the last entry with that key.\<close>

lemma map_of_fromEntries: "map_of (Object_fromEntries es) = map_of (rev es)"
  by (simp add: Object_fromEntries_def foldl_set_property)

lemma distinct_foldl:
  "distinct (map fst acc) \<Longrightarrow>
   distinct (map fst (foldl (\<lambda>obj kv. set_property (fst kv) (snd kv) obj) acc es))"
  by (induction es arbitrary: acc) (auto simp: distinct_set_property)

lemma distinct_fromEntries: "distinct (map fst (Object_fromEntries es))"
  by (simp add: Object_fromEntries_def distinct_foldl)

lemma new_Request_url_failure:
  "URL_parse P input = Inl e \<Longrightarrow> new_Request P input init = Inl e"
  by (simp add: new_Request_def)

lemma new_Request_Inr:
  "new_Request P input init = Inr w \<Longrightarrow>
   \<exists>u. URL_parse P input = Inr u \<and> request_url w = href u \<and> request_body w = init_body init"
  by (auto simp: new_Request_def split: sum.splits if_splits)





lemma getBody_of_try:
  "toWebRequest P req = Inr webReq \<Longrightarrow>
   getBody P req options = getBody_catch options (getBody_try P webReq options)"
  by (simp add: getBody_def)

lemma getBody_rejects: "toWebRequest P req = Inl e \<Longrightarrow> getBody P req options = (Inl e, [])"
  by (simp add: getBody_def)

lemma getBody_try_decoded:
  "arrayBuffer webReq = Inr ab \<Longrightarrow>
   TextDecoder_decode P (or_else (encoding options) ''utf-8'') ab = Inr buffer \<Longrightarrow>
   getBody_try P webReq options =
     (if buffer = [] then Inr (JObj [])
      else if raw options = Some True then Inr (JObj [(''raw'', JStr buffer)])
      else dispatch P (effective_contentType options webReq) buffer)"
  by (simp add: getBody_try_def)

lemma getBody_catch_Inr: "getBody_catch options (Inr v) = (Inr v, [])"
  by (simp add: getBody_catch_def)

lemma getBody_catch_no_handler:
  "onError options = None \<Longrightarrow> getBody_catch options (Inl err) = (Inr (JObj []), [])"
  by (simp add: getBody_catch_def)

lemma getBody_catch_returns:
  "onError options = Some h \<Longrightarrow> h err = None \<Longrightarrow>
   getBody_catch options (Inl err) = (Inr (JObj []), [err])"
  by (simp add: getBody_catch_def)

lemma getBody_catch_throws:
  "onError options = Some h \<Longrightarrow> h err = Some thrown \<Longrightarrow>
   getBody_catch options (Inl err) = (Inl thrown, [err])"
  by (simp add: getBody_catch_def)

text \<open>With a handler that returns, the \<^verbatim>\<open>catch\<close> clause always resolves.\<close>

lemma getBody_catch_resolves:
  assumes "\<And>h err. onError options = Some h \<Longrightarrow> h err = None"
  shows "\<exists>v. fst (getBody_catch options r) = Inr v"
proof (cases r)
  case (Inr v)
  then show ?thesis by (simp add: getBody_catch_Inr)
next
  case (Inl err)
  show ?thesis
  proof (cases "onError options")
    case None
    with Inl show ?thesis by (simp add: getBody_catch_no_handler)
  next
    case (Some h)
    with assms have "h err = None" by simp
    with Inl Some show ?thesis by (simp add: getBody_catch_returns)
  qed
qed

lemma effective_first_non_empty:
  "effective_contentType options webReq =
     first_non_empty [contentType options, Headers_get (request_headers webReq) ''content-type'',
                      backContentType options]"
  by (cases "contentType options"; cases "Headers_get (request_headers webReq) ''content-type''";
      cases "backContentType options") (simp_all add: effective_contentType_def js_or_def)

lemma dispatch_json: "dispatch P (''application/json'' @ rest) buffer = JSON_parse P buffer"
  by (simp add: dispatch_def)

lemma dispatch_urlencoded:
  "dispatch P (''application/x-www-form-urlencoded'' @ rest) buffer =
     (case URLSearchParams P buffer of
        Inl e \<Rightarrow> Inl e
      | Inr es \<Rightarrow> Inr (string_record (Object_fromEntries es)))"
  by (simp add: dispatch_def)

lemma dispatch_text:
  "dispatch P (''text/plain'' @ rest) buffer = Inr (JObj [(''text'', JStr buffer)])"
  by (simp add: dispatch_def)

lemma dispatch_other:
  "\<not> startsWith ct ''application/json'' \<Longrightarrow>
   \<not> startsWith ct ''application/x-www-form-urlencoded'' \<Longrightarrow>
   \<not> startsWith ct ''text/plain'' \<Longrightarrow>
   dispatch P ct buffer = Inr (JObj [(''raw'', JStr buffer)])"
  by (simp add: dispatch_def)

text \<open>Facts about the reference URL parser on paths that need no encoding.\<close>

lemma path_plain_no_delimiter:
  "path_plain c \<Longrightarrow> c \<noteq> CHR ''?'' \<and> c \<noteq> CHR ''#''"
  by (auto simp: path_plain_def is_alnum_def upper_letters_def lower_letters_def digit_chars_def)

lemma query_plain_no_hash: "query_plain c \<Longrightarrow> c \<noteq> CHR ''#''"
  by (auto simp: query_plain_def is_alnum_def upper_letters_def lower_letters_def digit_chars_def)

lemma takeWhile_all: "list_all Q xs \<Longrightarrow> takeWhile Q (xs @ ys) = xs @ takeWhile Q ys"
  by (induction xs) auto

lemma dropWhile_all: "list_all Q xs \<Longrightarrow> dropWhile Q (xs @ ys) = dropWhile Q ys"
  by (induction xs) auto

lemma list_all_mono: "list_all Q xs \<Longrightarrow> (\<And>x. Q x \<Longrightarrow> R x) \<Longrightarrow> list_all R xs"
  by (induction xs) auto

lemma path_part:
  assumes "list_all path_plain p"
  shows "takeWhile (\<lambda>c. c \<noteq> CHR ''?'' \<and> c \<noteq> CHR ''#'') (p @ CHR ''?'' # q) = p"
    and "dropWhile (\<lambda>c. c \<noteq> CHR ''?'' \<and> c \<noteq> CHR ''#'') (p @ CHR ''?'' # q) = CHR ''?'' # q"
proof -
  from assms have a: "list_all (\<lambda>c. c \<noteq> CHR ''?'' \<and> c \<noteq> CHR ''#'') p"
    by (rule list_all_mono) (rule path_plain_no_delimiter)
  from a show "takeWhile (\<lambda>c. c \<noteq> CHR ''?'' \<and> c \<noteq> CHR ''#'') (p @ CHR ''?'' # q) = p"
    by (simp add: takeWhile_all)
  from a show "dropWhile (\<lambda>c. c \<noteq> CHR ''?'' \<and> c \<noteq> CHR ''#'') (p @ CHR ''?'' # q) = CHR ''?'' # q"
    by (simp add: dropWhile_all)
qed

lemma query_part:
  assumes "list_all query_plain q"
  shows "takeWhile (\<lambda>c. c \<noteq> CHR ''#'') q = q" and "dropWhile (\<lambda>c. c \<noteq> CHR ''#'') q = []"
proof -
  from assms have a: "list_all (\<lambda>c. c \<noteq> CHR ''#'') q"
    by (rule list_all_mono) (rule query_plain_no_hash)
  from takeWhile_all [OF a, of "[]"] show "takeWhile (\<lambda>c. c \<noteq> CHR ''#'') q = q"
    by simp
  from dropWhile_all [OF a, of "[]"] show "dropWhile (\<lambda>c. c \<noteq> CHR ''#'') q = []"
    by simp
qed

lemma query_component_plain:
  assumes "list_all path_plain p" and "list_all query_plain q"
  shows "query_component (p @ CHR ''?'' # q) = q"
proof -
  from assms(1) have a: "list_all (\<lambda>c. c \<noteq> CHR ''#'') p"
    by (rule list_all_mono) (simp add: path_plain_no_delimiter)
  from assms(1) have b: "list_all (\<lambda>c. c \<noteq> CHR ''?'') p"
    by (rule list_all_mono) (simp add: path_plain_no_delimiter)
  have "takeWhile (\<lambda>c. c \<noteq> CHR ''#'') (p @ CHR ''?'' # q) = p @ CHR ''?'' # q"
    using a query_part(1) [OF assms(2)] by (simp add: takeWhile_all)
  then show ?thesis
    using b by (simp add: query_component_def dropWhile_all)
qed


lemma query_component_prefixed:
  "query_component (''http://localhost'' @ u) = query_component u"
  by (simp add: query_component_def)

lemma ref_URL_parse_plain:
  assumes "startsWith p ''/''" and "list_all path_plain p" and "no_dot_segments p"
    and "list_all query_plain q"
  shows "ref_URL_parse (''http://localhost'' @ p @ CHR ''?'' # q) =
           (case urlencoded_parse q of
              Inl e \<Rightarrow> Inl e
            | Inr ps \<Rightarrow> Inr \<lparr>href = ''http://localhost'' @ p @ CHR ''?'' # q, searchParams = ps,
                             credentials = False\<rparr>)"
proof -
  let ?D = "\<lambda>c. c \<notin> set [CHR ''/'', CHR 0x5C, CHR ''?'', CHR ''#'']"
  let ?R = "''localhost'' @ p @ CHR ''?'' # q"
  from assms(1) obtain p' where p: "p = CHR ''/'' # p'"
    by (cases p) auto
  have a1: "takeWhile ?D ?R = ''localhost''"
    by (simp add: p)
  have a2: "dropWhile ?D ?R = p @ CHR ''?'' # q"
    by (simp add: p)
  have h1: "takeWhile (\<lambda>c. c \<noteq> CHR '':'') ''localhost'' = ''localhost''"
    by simp
  have h2: "dropWhile (\<lambda>c. c \<noteq> CHR '':'') ''localhost'' = []"
    by simp
  have host: "list_all (\<lambda>c. c \<in> set lower_letters) ''localhost''"
    by (simp add: lower_letters_def)
  have port: "port_suffix 80 [] = Inr []"
    by (simp add: port_suffix_def)
  have q1: "startsWith (CHR ''?'' # q) ''?''"
    by simp
  have q2: "drop 1 (CHR ''?'' # q) = q"
    by simp
  have ne: "p \<noteq> []"
    by (simp add: p)
  have fr: "list_all fragment_plain []"
    by simp
  have "parse_after_scheme ''http'' 80 ?R =
           (case urlencoded_parse q of
              Inl e \<Rightarrow> Inl e
            | Inr ps \<Rightarrow> Inr \<lparr>href = ''http://localhost'' @ p @ CHR ''?'' # q, searchParams = ps,
                             credentials = False\<rparr>)"
    unfolding parse_after_scheme_def Let_def a1 a2 h1 h2 path_part [OF assms(2)] q2
      query_part [OF assms(4)]
    by (simp only: host port q1 ne assms(2,3,4) simp_thms if_True if_False sum.case drop_Nil
          fr list.distinct append.simps append_Nil2 append_assoc)
       simp
  then show ?thesis
    by (simp add: ref_URL_parse_def)
qed

text \<open>
  The reference parser meets \<open>reports_query\<close> on every completed URL whose path starts
  with a slash and whose path and query need no encoding.
\<close>

lemma ref_platform_reports_query:
  assumes "startsWith p ''/''" and "list_all path_plain p" and "no_dot_segments p"
    and "list_all query_plain q"
  shows "reports_query ref_platform (''http://localhost'' @ p @ CHR ''?'' # q)"
proof -
  let ?s = "''http://localhost'' @ p @ CHR ''?'' # q"
  have qc: "query_component ?s = q"
    using query_component_plain [OF assms(2,4)] query_component_prefixed [of "p @ CHR ''?'' # q"]
    by simp
  have nq: "\<not> startsWith q ''?''"
    using assms(4) by (cases q) (auto simp: query_plain_def is_alnum_def upper_letters_def
        lower_letters_def digit_chars_def)
  show ?thesis
  proof (cases "urlencoded_parse q")
    case (Inl e)
    with ref_URL_parse_plain [OF assms] have "URL_parse ref_platform ?s = Inl e"
      by (simp add: ref_platform_def)
    then show ?thesis
      by (simp only: reports_query_def sum.case)
  next
    case (Inr ps)
    let ?u = "\<lparr>href = ?s, searchParams = ps, credentials = False\<rparr>"
    from Inr ref_URL_parse_plain [OF assms] have u: "URL_parse ref_platform ?s = Inr ?u"
      by (simp add: ref_platform_def)
    from Inr nq have sp: "URLSearchParams ref_platform q = Inr ps"
      by (simp add: ref_platform_def ref_URLSearchParams_def)
    have h: "href ?u = ?s" and s: "searchParams ?u = ps"
      by simp_all
    show ?thesis
      unfolding reports_query_def u sum.case qc h s
      using sp by simp
  qed
qed


section \<open>Error containment in getBody\<close>

text \<open>
  Claim C1 says that \<^verbatim>\<open>getBody\<close> resolves for every request and every options value.
  It does not, in two ways.  A legacy request whose URL the \<^verbatim>\<open>Request\<close> constructor
  rejects makes \<^verbatim>\<open>toWebRequest\<close> throw on line 83, before the \<^verbatim>\<open>try\<close> block: here the
  request is \<^verbatim>\<open>POST http://\<close>, a URL without a host.  And a handler that throws does so
  inside the \<^verbatim>\<open>catch\<close> clause, where nothing catches it: here the body \<^verbatim>\<open>{a:\<close> is
  malformed JSON and the handler throws the error it is given.
\<close>

theorem getBody_rejects_counterexample:
  "fst (getBody ref_platform
          (NodeRequest \<lparr>req_method = Some ''POST'', url = Some ''http://'', headers = [],
                        stream = Inr ''{}''\<rparr>) no_options) = Inl TypeError
   \<and> fst (getBody ref_platform (node_request ''POST'' ''/submit'' ''application/json'' ''{a:'')
          (no_options\<lparr>onError := Some rethrowing\<rparr>)) = Inl SyntaxError"
  by code_simp

text \<open>
  Claim C1, amended.  Whenever normalisation succeeds, an error thrown in the \<^verbatim>\<open>try\<close>
  block (while draining the stream, while constructing the decoder or decoding, or
  while parsing the decoded text) is caught.  Without a handler the call resolves to
  the empty object.  With a handler, the handler is called with the error; when it
  returns, the call resolves to the empty object; when it throws, the call rejects with
  what it threw.  So with no handler or a handler that returns, \<^verbatim>\<open>getBody\<close> resolves and
  never rejects once the request is normalised.  When normalisation throws,
  \<^verbatim>\<open>getBody\<close> rejects with that error and calls no handler.
\<close>

theorem getBody_contains_errors:
  "(\<forall>webReq. toWebRequest P req = Inr webReq \<longrightarrow>
       (\<forall>v. getBody_try P webReq options = Inr v \<longrightarrow> getBody P req options = (Inr v, []))
     \<and> (\<forall>err. getBody_try P webReq options = Inl err \<and> onError options = None \<longrightarrow>
            getBody P req options = (Inr (JObj []), []))
     \<and> (\<forall>err h. getBody_try P webReq options = Inl err \<and> onError options = Some h
            \<and> h err = None \<longrightarrow>
            getBody P req options = (Inr (JObj []), [err]))
     \<and> (\<forall>err h thrown. getBody_try P webReq options = Inl err \<and> onError options = Some h
            \<and> h err = Some thrown \<longrightarrow>
            getBody P req options = (Inl thrown, [err]))
     \<and> ((\<forall>h err. onError options = Some h \<longrightarrow> h err = None) \<longrightarrow>
            (\<exists>v. fst (getBody P req options) = Inr v))
     \<and> (\<forall>err. arrayBuffer webReq = Inl err \<longrightarrow> getBody_try P webReq options = Inl err)
     \<and> (\<forall>ab err. arrayBuffer webReq = Inr ab
            \<and> TextDecoder_decode P (or_else (encoding options) ''utf-8'') ab = Inl err \<longrightarrow>
            getBody_try P webReq options = Inl err)
     \<and> (\<forall>ab buffer err. arrayBuffer webReq = Inr ab
            \<and> TextDecoder_decode P (or_else (encoding options) ''utf-8'') ab = Inr buffer
            \<and> buffer \<noteq> [] \<and> raw options \<noteq> Some True
            \<and> dispatch P (effective_contentType options webReq) buffer = Inl err \<longrightarrow>
            getBody_try P webReq options = Inl err))
   \<and> (\<forall>e. toWebRequest P req = Inl e \<longrightarrow> getBody P req options = (Inl e, []))"
proof (intro conjI allI impI)
  fix webReq v
  assume w: "toWebRequest P req = Inr webReq" and "getBody_try P webReq options = Inr v"
  then show "getBody P req options = (Inr v, [])"
    by (simp add: getBody_of_try getBody_catch_Inr)
next
  fix webReq err
  assume w: "toWebRequest P req = Inr webReq"
    and "getBody_try P webReq options = Inl err \<and> onError options = None"
  then show "getBody P req options = (Inr (JObj []), [])"
    by (simp add: getBody_of_try getBody_catch_no_handler)
next
  fix webReq err h
  assume w: "toWebRequest P req = Inr webReq"
    and "getBody_try P webReq options = Inl err \<and> onError options = Some h \<and> h err = None"
  then show "getBody P req options = (Inr (JObj []), [err])"
    by (simp add: getBody_of_try getBody_catch_returns)
next
  fix webReq err h thrown
  assume w: "toWebRequest P req = Inr webReq"
    and "getBody_try P webReq options = Inl err \<and> onError options = Some h
         \<and> h err = Some thrown"
  then show "getBody P req options = (Inl thrown, [err])"
    by (simp add: getBody_of_try getBody_catch_throws)
next
  fix webReq
  assume w: "toWebRequest P req = Inr webReq"
    and "\<forall>h err. onError options = Some h \<longrightarrow> h err = None"
  then have h: "\<And>h err. onError options = Some h \<Longrightarrow> h err = None"
    by blast
  have "\<exists>v. fst (getBody_catch options (getBody_try P webReq options)) = Inr v"
    by (rule getBody_catch_resolves) (rule h)
  then show "\<exists>v. fst (getBody P req options) = Inr v"
    by (simp add: getBody_of_try [OF w])
next
  fix webReq err assume "arrayBuffer webReq = Inl err"
  then show "getBody_try P webReq options = Inl err"
    by (simp add: getBody_try_def)
next
  fix webReq ab err
  assume "arrayBuffer webReq = Inr ab
            \<and> TextDecoder_decode P (or_else (encoding options) ''utf-8'') ab = Inl err"
  then show "getBody_try P webReq options = Inl err"
    by (simp add: getBody_try_def)
next
  fix webReq ab buffer err
  assume "arrayBuffer webReq = Inr ab
            \<and> TextDecoder_decode P (or_else (encoding options) ''utf-8'') ab = Inr buffer
            \<and> buffer \<noteq> [] \<and> raw options \<noteq> Some True
            \<and> dispatch P (effective_contentType options webReq) buffer = Inl err"
  then show "getBody_try P webReq options = Inl err"
    by (simp add: getBody_try_decoded)
next
  fix e assume "toWebRequest P req = Inl e"
  then show "getBody P req options = (Inl e, [])"
    by (rule getBody_rejects)
qed

text \<open>
  Witness for C1: the malformed JSON body \<^verbatim>\<open>{a:\<close> with a handler that returns.
  Normalisation succeeds, the parser throws a syntax error inside the \<^verbatim>\<open>try\<close> block, the
  handler is called with it and the result is the empty object.
\<close>

theorem getBody_contains_errors_witness:
  "toWebRequest ref_platform (node_request ''POST'' ''/submit'' ''application/json'' ''{a:'')
     = Inr \<lparr>request_method = ''POST'', request_url = ''http://localhost/submit'',
            request_headers = [(''content-type'', ''application/json'')],
            request_body = Some (Inr ''{a:'')\<rparr>
   \<and> getBody_try ref_platform
        \<lparr>request_method = ''POST'', request_url = ''http://localhost/submit'',
         request_headers = [(''content-type'', ''application/json'')],
         request_body = Some (Inr ''{a:'')\<rparr> (no_options\<lparr>onError := Some observer\<rparr>)
     = Inl SyntaxError
   \<and> onError (no_options\<lparr>onError := Some observer\<rparr>) = Some observer
   \<and> observer SyntaxError = None
   \<and> getBody ref_platform (node_request ''POST'' ''/submit'' ''application/json'' ''{a:'')
        (no_options\<lparr>onError := Some observer\<rparr>) = (Inr (JObj []), [SyntaxError])
   \<and> (\<exists>v. fst (getBody ref_platform
                  (node_request ''POST'' ''/submit'' ''application/json'' ''{a:'')
                  (no_options\<lparr>onError := Some observer\<rparr>)) = Inr v)"
proof -
  let ?req = "node_request ''POST'' ''/submit'' ''application/json'' ''{a:''"
  let ?w = "\<lparr>request_method = ''POST'', request_url = ''http://localhost/submit'',
            request_headers = [(''content-type'', ''application/json'')],
            request_body = Some (Inr ''{a:'')\<rparr>"
  let ?opts = "no_options\<lparr>onError := Some observer\<rparr>"
  have w: "toWebRequest ref_platform ?req = Inr ?w"
    by code_simp
  have t: "getBody_try ref_platform ?w ?opts = Inl SyntaxError"
    by code_simp
  have o: "onError ?opts = Some observer"
    by simp
  have n: "observer SyntaxError = None"
    by (simp add: observer_def)
  have a: "\<forall>h err. onError ?opts = Some h \<longrightarrow> h err = None"
    by (simp add: observer_def)
  note main = getBody_contains_errors [of ref_platform ?req ?opts]
  from main w t o n
  have 1: "getBody ref_platform ?req ?opts = (Inr (JObj []), [SyntaxError])"
    by blast
  from main w a have 2: "\<exists>v. fst (getBody ref_platform ?req ?opts) = Inr v"
    by blast
  from w t o n 1 2 show ?thesis by blast
qed

section \<open>Normalisation\<close>

text \<open>
  Claim C2 says that \<^verbatim>\<open>toWebRequest\<close> never raises, even for a malformed URL.  It does
  raise: the \<^verbatim>\<open>Request\<close> constructor parses the URL it is given.  The legacy url
  \<^verbatim>\<open>:abc\<close> is completed to \<^verbatim>\<open>http://localhost:abc\<close>, whose port is not a number.
\<close>

theorem toWebRequest_raises_counterexample:
  "toWebRequest ref_platform
     (NodeRequest \<lparr>req_method = Some ''GET'', url = Some '':abc'', headers = [], stream = Inr []\<rparr>)
   = Inl TypeError"
  by code_simp

text \<open>
  Claim C2, amended.  A standard request is returned unchanged, and for it normalisation
  never raises.  For a legacy request the completed URL is parsed by the \<^verbatim>\<open>Request\<close>
  constructor: when that fails, \<^verbatim>\<open>toWebRequest\<close> itself raises the error, and
  \<^verbatim>\<open>getParams\<close> raises it too, uncaught, at its call of \<^verbatim>\<open>toWebRequest\<close> and before its
  own URL parse.  A legacy request is normalised only if its completed URL parses, and
  the canonical URL is the serialisation of the parsed one.
\<close>

theorem toWebRequest_raises:
  "toWebRequest P (WebRequest r) = Inr r
   \<and> (URL_parse P (fullUrl nodeReq) = Inl e \<longrightarrow>
        toWebRequest P (NodeRequest nodeReq) = Inl e \<and> getParams P (NodeRequest nodeReq) = Inl e)
   \<and> (toWebRequest P (NodeRequest nodeReq) = Inr w \<longrightarrow>
        (\<exists>u. URL_parse P (fullUrl nodeReq) = Inr u \<and> request_url w = href u))"
proof (intro conjI impI)
  show "toWebRequest P (WebRequest r) = Inr r"
    by (simp add: toWebRequest_def)
next
  assume u: "URL_parse P (fullUrl nodeReq) = Inl e"
  then show "toWebRequest P (NodeRequest nodeReq) = Inl e"
    by (simp add: toWebRequest_def new_Request_url_failure)
  then show "getParams P (NodeRequest nodeReq) = Inl e"
    by (simp add: getParams_def)
next
  assume "toWebRequest P (NodeRequest nodeReq) = Inr w"
  then have "new_Request P (fullUrl nodeReq) (requestInit nodeReq) = Inr w"
    by (simp add: toWebRequest_def)
  from new_Request_Inr [OF this]
  show "\<exists>u. URL_parse P (fullUrl nodeReq) = Inr u \<and> request_url w = href u"
    by blast
qed

text \<open>
  Witness for C2: the URL \<^verbatim>\<open>http://\<close> does not parse, so both \<^verbatim>\<open>toWebRequest\<close> and
  \<^verbatim>\<open>getParams\<close> raise; and the request for \<^verbatim>\<open>/x\<close> is normalised, its canonical URL being
  the serialisation of the parsed \<^verbatim>\<open>http://localhost/x\<close>.
\<close>

theorem toWebRequest_raises_witness:
  "URL_parse ref_platform
     (fullUrl \<lparr>req_method = Some ''GET'', url = Some ''http://'', headers = [], stream = Inr []\<rparr>)
     = Inl TypeError
   \<and> toWebRequest ref_platform
       (NodeRequest \<lparr>req_method = Some ''GET'', url = Some ''http://'', headers = [], stream = Inr []\<rparr>)
     = Inl TypeError
   \<and> getParams ref_platform
       (NodeRequest \<lparr>req_method = Some ''GET'', url = Some ''http://'', headers = [], stream = Inr []\<rparr>)
     = Inl TypeError
   \<and> toWebRequest ref_platform
       (NodeRequest \<lparr>req_method = Some ''GET'', url = Some ''/x'', headers = [], stream = Inr []\<rparr>)
     = Inr \<lparr>request_method = ''GET'', request_url = ''http://localhost/x'',
            request_headers = [], request_body = None\<rparr>
   \<and> (\<exists>u. URL_parse ref_platform
              (fullUrl \<lparr>req_method = Some ''GET'', url = Some ''/x'', headers = [], stream = Inr []\<rparr>)
            = Inr u
          \<and> request_url \<lparr>request_method = ''GET'', request_url = ''http://localhost/x'',
               request_headers = [], request_body = None\<rparr> = href u)"
proof -
  let ?n = "\<lparr>req_method = Some ''GET'', url = Some ''http://'', headers = [], stream = Inr []\<rparr>"
  let ?m = "\<lparr>req_method = Some ''GET'', url = Some ''/x'', headers = [], stream = Inr []\<rparr>"
  let ?w = "\<lparr>request_method = ''GET'', request_url = ''http://localhost/x'',
            request_headers = [], request_body = None\<rparr>"
  have u: "URL_parse ref_platform (fullUrl ?n) = Inl TypeError"
    by code_simp
  have w: "toWebRequest ref_platform (NodeRequest ?m) = Inr ?w"
    by code_simp
  from toWebRequest_raises [of ref_platform ?w ?n TypeError ?w] u
  have 1: "toWebRequest ref_platform (NodeRequest ?n) = Inl TypeError
           \<and> getParams ref_platform (NodeRequest ?n) = Inl TypeError"
    by blast
  from toWebRequest_raises [of ref_platform ?w ?m TypeError ?w] w
  have 2: "\<exists>u. URL_parse ref_platform (fullUrl ?m) = Inr u \<and> request_url ?w = href u"
    by blast
  from u w 1 2 show ?thesis by blast
qed




text \<open>
  Claim C4 says that for every legacy url that does not start with \<^verbatim>\<open>http\<close>,
  \<^verbatim>\<open>getParams\<close> yields the mapping of the query component of the path.  For the url
  \<^verbatim>\<open>:abc?a=1\<close> the query component is \<^verbatim>\<open>a=1\<close>, but the completed URL
  \<^verbatim>\<open>http://localhost:abc?a=1\<close> is malformed and \<^verbatim>\<open>getParams\<close> raises.
\<close>

theorem getParams_relative_url_counterexample:
  "getParams ref_platform
     (NodeRequest \<lparr>req_method = Some ''GET'', url = Some '':abc?a=1'', headers = [],
                   stream = Inr []\<rparr>) = Inl TypeError
   \<and> urlencoded_parse (query_component '':abc?a=1'') = Inr [(''a'', ''1'')]"
  by code_simp

text \<open>
  Claim C4, amended.  For a legacy url \<open>u\<close> that does not start with \<^verbatim>\<open>http\<close>, the URL
  given to the \<^verbatim>\<open>Request\<close> constructor is \<^verbatim>\<open>http://localhost\<close> followed by \<open>u\<close>.  When
  normalisation raises, \<^verbatim>\<open>getParams\<close> raises the same error.  When normalisation
  succeeds, \<^verbatim>\<open>getParams\<close> yields exactly the key-value mapping of the query component
  of \<open>u\<close>, the original path, on every platform whose URL parser reports the query of
  the completed URL as the standard says (\<open>reports_query\<close>).  The reference parser does
  so for every path that starts with a slash and a query that need no encoding.
\<close>

theorem getParams_relative_url:
  assumes "url nodeReq = Some u" and "\<not> startsWith u ''http''"
  shows "fullUrl nodeReq = ''http://localhost'' @ u
       \<and> (\<forall>e. toWebRequest P (NodeRequest nodeReq) = Inl e \<longrightarrow>
            getParams P (NodeRequest nodeReq) = Inl e)
       \<and> (\<forall>webReq. toWebRequest P (NodeRequest nodeReq) = Inr webReq
              \<and> reports_query P (''http://localhost'' @ u) \<longrightarrow>
            (\<exists>es. URLSearchParams P (query_component u) = Inr es
               \<and> getParams P (NodeRequest nodeReq) = Inr (Object_fromEntries es)))
       \<and> (\<forall>p q. u = p @ CHR ''?'' # q \<and> startsWith p ''/'' \<and> list_all path_plain p
              \<and> no_dot_segments p \<and> list_all query_plain q \<longrightarrow>
            reports_query ref_platform (''http://localhost'' @ u))"
proof (intro conjI allI impI)
  from assms show f: "fullUrl nodeReq = ''http://localhost'' @ u"
    by (simp add: fullUrl_def)
  {
    fix webReq
    assume a: "toWebRequest P (NodeRequest nodeReq) = Inr webReq
              \<and> reports_query P (''http://localhost'' @ u)"
    then have "new_Request P (fullUrl nodeReq) (requestInit nodeReq) = Inr webReq"
      by (simp add: toWebRequest_def)
    from new_Request_Inr [OF this] obtain pu
      where pu: "URL_parse P (fullUrl nodeReq) = Inr pu" and r: "request_url webReq = href pu"
      by blast
    from pu f have pu': "URL_parse P (''http://localhost'' @ u) = Inr pu"
      by (simp only:)
    from a have "reports_query P (''http://localhost'' @ u)" ..
    then have q: "URLSearchParams P (query_component (''http://localhost'' @ u))
                    = Inr (searchParams pu)"
      and "case URL_parse P (href pu) of Inl e \<Rightarrow> False
           | Inr u' \<Rightarrow> searchParams u' = searchParams pu"
      unfolding reports_query_def pu' sum.case by blast+
    then obtain pu2 where p2: "URL_parse P (href pu) = Inr pu2"
      and s2: "searchParams pu2 = searchParams pu"
      by (cases "URL_parse P (href pu)") simp_all
    from a r p2 s2
    have g: "getParams P (NodeRequest nodeReq) = Inr (Object_fromEntries (searchParams pu))"
      by (simp add: getParams_def)
    from q have "URLSearchParams P (query_component u) = Inr (searchParams pu)"
      by (simp only: query_component_prefixed)
    with g show "\<exists>es. URLSearchParams P (query_component u) = Inr es
               \<and> getParams P (NodeRequest nodeReq) = Inr (Object_fromEntries es)"
      by blast
  }
next
  fix e assume "toWebRequest P (NodeRequest nodeReq) = Inl e"
  then show "getParams P (NodeRequest nodeReq) = Inl e"
    by (simp add: getParams_def)
next
  fix p q
  assume "u = p @ CHR ''?'' # q \<and> startsWith p ''/'' \<and> list_all path_plain p
              \<and> no_dot_segments p \<and> list_all query_plain q"
  then show "reports_query ref_platform (''http://localhost'' @ u)"
    using ref_platform_reports_query [of p q] by (simp only:)
qed

text \<open>Witness for C4: the path \<^verbatim>\<open>/index.html?a=1&b=2\<close>.\<close>

theorem getParams_relative_url_witness:
  "url \<lparr>req_method = Some ''GET'', url = Some ''/index.html?a=1&b=2'', headers = [],
        stream = Inr []\<rparr> = Some ''/index.html?a=1&b=2''
   \<and> \<not> startsWith ''/index.html?a=1&b=2'' ''http''
   \<and> reports_query ref_platform (''http://localhost'' @ ''/index.html?a=1&b=2'')
   \<and> toWebRequest ref_platform
        (NodeRequest \<lparr>req_method = Some ''GET'', url = Some ''/index.html?a=1&b=2'',
                      headers = [], stream = Inr []\<rparr>)
       = Inr \<lparr>request_method = ''GET'', request_url = ''http://localhost/index.html?a=1&b=2'',
              request_headers = [], request_body = None\<rparr>
   \<and> fullUrl \<lparr>req_method = Some ''GET'', url = Some ''/index.html?a=1&b=2'', headers = [],
               stream = Inr []\<rparr> = ''http://localhost/index.html?a=1&b=2''
   \<and> URLSearchParams ref_platform (query_component ''/index.html?a=1&b=2'')
       = Inr [(''a'', ''1''), (''b'', ''2'')]
   \<and> getParams ref_platform
        (NodeRequest \<lparr>req_method = Some ''GET'', url = Some ''/index.html?a=1&b=2'',
                      headers = [], stream = Inr []\<rparr>)
       = Inr (Object_fromEntries [(''a'', ''1''), (''b'', ''2'')])"
proof -
  let ?n = "\<lparr>req_method = Some ''GET'', url = Some ''/index.html?a=1&b=2'', headers = [],
             stream = Inr []\<rparr>"
  let ?w = "\<lparr>request_method = ''GET'', request_url = ''http://localhost/index.html?a=1&b=2'',
             request_headers = [], request_body = None\<rparr>"
  have u: "url ?n = Some ''/index.html?a=1&b=2''"
    by simp
  have h: "\<not> startsWith ''/index.html?a=1&b=2'' ''http''"
    by simp
  have c: "reports_query ref_platform (''http://localhost'' @ ''/index.html?a=1&b=2'')"
    by code_simp
  have w: "toWebRequest ref_platform (NodeRequest ?n) = Inr ?w"
    by code_simp
  have e: "URLSearchParams ref_platform (query_component ''/index.html?a=1&b=2'')
           = Inr [(''a'', ''1''), (''b'', ''2'')]"
    by code_simp
  note t = getParams_relative_url [OF u h, of ref_platform]
  from t have 1: "fullUrl ?n = ''http://localhost'' @ ''/index.html?a=1&b=2''"
    by blast
  from t w c
  have "\<exists>es. URLSearchParams ref_platform (query_component ''/index.html?a=1&b=2'') = Inr es
           \<and> getParams ref_platform (NodeRequest ?n) = Inr (Object_fromEntries es)"
    by blast
  with e have 2: "getParams ref_platform (NodeRequest ?n)
                  = Inr (Object_fromEntries [(''a'', ''1''), (''b'', ''2'')])"
    by auto
  from u h c w 1 e 2 show ?thesis by simp
qed

section \<open>Content-type dispatch\<close>

text \<open>
  Claim C6.  The content type that \<^verbatim>\<open>getBody\<close> dispatches on is the first non-empty
  value among \<open>options.contentType\<close>, the request's \<^verbatim>\<open>content-type\<close> header and
  \<open>options.backContentType\<close>, in this order, and the empty string when there is none.
  When the override or the header is non-empty, the value of \<open>backContentType\<close> makes
  no difference.  For a non-empty decoded text and \<open>raw\<close> unset, the \<^verbatim>\<open>try\<close> block returns
  what the dispatch on that content type returns.
\<close>

theorem contentType_precedence:
  "effective_contentType options webReq =
     first_non_empty [contentType options, Headers_get (request_headers webReq) ''content-type'',
                      backContentType options]
   \<and> (truthy (contentType options) \<or> truthy (Headers_get (request_headers webReq) ''content-type'')
        \<longrightarrow> effective_contentType (options\<lparr>backContentType := b\<rparr>) webReq
              = effective_contentType options webReq)
   \<and> (arrayBuffer webReq = Inr ab
        \<and> TextDecoder_decode P (or_else (encoding options) ''utf-8'') ab = Inr buffer
        \<and> buffer \<noteq> [] \<and> raw options \<noteq> Some True
        \<longrightarrow> getBody_try P webReq options =
              dispatch P (first_non_empty [contentType options,
                                           Headers_get (request_headers webReq) ''content-type'',
                                           backContentType options]) buffer)"
proof (intro conjI impI)
  show "effective_contentType options webReq =
     first_non_empty [contentType options, Headers_get (request_headers webReq) ''content-type'',
                      backContentType options]"
    by (rule effective_first_non_empty)
next
  assume "truthy (contentType options)
          \<or> truthy (Headers_get (request_headers webReq) ''content-type'')"
  then show "effective_contentType (options\<lparr>backContentType := b\<rparr>) webReq
              = effective_contentType options webReq"
    by (auto simp: effective_contentType_def js_or_def)
next
  assume "arrayBuffer webReq = Inr ab
        \<and> TextDecoder_decode P (or_else (encoding options) ''utf-8'') ab = Inr buffer
        \<and> buffer \<noteq> [] \<and> raw options \<noteq> Some True"
  then show "getBody_try P webReq options =
              dispatch P (first_non_empty [contentType options,
                                           Headers_get (request_headers webReq) ''content-type'',
                                           backContentType options]) buffer"
    by (simp add: getBody_try_decoded effective_first_non_empty)
qed

text \<open>
  Witness for C6: no override, the header \<^verbatim>\<open>Content-Type: text/plain\<close>; the fallback
  \<^verbatim>\<open>application/json\<close> is not consulted.
\<close>

theorem contentType_precedence_witness:
  "truthy (Headers_get (request_headers
             \<lparr>request_method = ''POST'', request_url = ''http://localhost/submit'',
              request_headers = [(''Content-Type'', ''text/plain'')],
              request_body = Some (Inr ''hi'')\<rparr>) ''content-type'')
   \<and> effective_contentType (no_options\<lparr>backContentType := Some ''application/json''\<rparr>)
        \<lparr>request_method = ''POST'', request_url = ''http://localhost/submit'',
         request_headers = [(''Content-Type'', ''text/plain'')],
         request_body = Some (Inr ''hi'')\<rparr>
       = effective_contentType no_options
        \<lparr>request_method = ''POST'', request_url = ''http://localhost/submit'',
         request_headers = [(''Content-Type'', ''text/plain'')],
         request_body = Some (Inr ''hi'')\<rparr>
   \<and> effective_contentType no_options
        \<lparr>request_method = ''POST'', request_url = ''http://localhost/submit'',
         request_headers = [(''Content-Type'', ''text/plain'')],
         request_body = Some (Inr ''hi'')\<rparr> = ''text/plain''
   \<and> getBody_try ref_platform
        \<lparr>request_method = ''POST'', request_url = ''http://localhost/submit'',
         request_headers = [(''Content-Type'', ''text/plain'')],
         request_body = Some (Inr ''hi'')\<rparr> no_options
       = dispatch ref_platform ''text/plain'' ''hi''"
proof -
  let ?w = "\<lparr>request_method = ''POST'', request_url = ''http://localhost/submit'',
              request_headers = [(''Content-Type'', ''text/plain'')],
              request_body = Some (Inr ''hi'')\<rparr>"
  have h: "truthy (Headers_get (request_headers ?w) ''content-type'')"
    by code_simp
  have f: "first_non_empty [contentType no_options,
              Headers_get (request_headers ?w) ''content-type'', backContentType no_options]
           = ''text/plain''"
    by code_simp
  have a: "arrayBuffer ?w = Inr ''hi''"
    by code_simp
  have d: "TextDecoder_decode ref_platform (or_else (encoding no_options) ''utf-8'') ''hi''
           = Inr ''hi''"
    by code_simp
  have r: "''hi'' \<noteq> [] \<and> raw no_options \<noteq> Some True"
    by (simp add: no_options_def)
  note t = contentType_precedence [of no_options ?w "Some ''application/json''" "''hi''"
                                       ref_platform "''hi''"]
  from t h have 1: "effective_contentType (no_options\<lparr>backContentType := Some ''application/json''\<rparr>) ?w
                   = effective_contentType no_options ?w"
    by blast
  from t f have 2: "effective_contentType no_options ?w = ''text/plain''"
    by simp
  from t a d r f have 3: "getBody_try ref_platform ?w no_options
                          = dispatch ref_platform ''text/plain'' ''hi''"
    by simp
  from h 1 2 3 show ?thesis by blast
qed

text \<open>
  Claim C5 says that the prefix match is case-insensitive.  It is not: \<^verbatim>\<open>startsWith\<close>
  compares code units, and nothing lowers the content type.  With the header value
  \<^verbatim>\<open>Text/Plain\<close> the body \<^verbatim>\<open>hi\<close> comes back under \<open>raw\<close>; with \<^verbatim>\<open>text/plain\<close> it
  comes back under \<open>text\<close>.
\<close>

theorem getBody_dispatch_counterexample:
  "getBody ref_platform (node_request ''POST'' ''/submit'' ''Text/Plain'' ''hi'') no_options
     = (Inr (JObj [(''raw'', JStr ''hi'')]), [])
   \<and> getBody ref_platform (node_request ''POST'' ''/submit'' ''text/plain'' ''hi'') no_options
     = (Inr (JObj [(''text'', JStr ''hi'')]), [])"
  by code_simp

text \<open>
  Claim C5, amended.  For a non-empty decoded text with \<open>raw\<close> unset, \<^verbatim>\<open>getBody\<close>
  dispatches on the effective content type by a case-sensitive prefix match, so that
  parameters after the type make no difference: a content type that starts with
  \<^verbatim>\<open>application/json\<close> selects \<^verbatim>\<open>JSON.parse\<close>, one that starts with
  \<^verbatim>\<open>application/x-www-form-urlencoded\<close> selects the urlencoded decoder (in both cases an
  error of the decoder is caught), one that starts with \<^verbatim>\<open>text/plain\<close> gives the text
  under \<open>text\<close>, and \<^verbatim>\<open>multipart/form-data\<close> and every other content type, the empty
  one and one that differs in letter case included, give the text under \<open>raw\<close>.
\<close>

theorem getBody_dispatch:
  assumes "toWebRequest P req = Inr webReq"
    and "arrayBuffer webReq = Inr ab"
    and "TextDecoder_decode P (or_else (encoding options) ''utf-8'') ab = Inr buffer"
    and "buffer \<noteq> []"
    and "raw options \<noteq> Some True"
  shows "(\<forall>rest. effective_contentType options webReq = ''application/json'' @ rest \<longrightarrow>
            getBody P req options = getBody_catch options (JSON_parse P buffer))
       \<and> (\<forall>rest. effective_contentType options webReq
                   = ''application/x-www-form-urlencoded'' @ rest \<longrightarrow>
            getBody P req options =
              getBody_catch options
                (case URLSearchParams P buffer of
                   Inl e \<Rightarrow> Inl e
                 | Inr es \<Rightarrow> Inr (string_record (Object_fromEntries es))))
       \<and> (\<forall>rest. effective_contentType options webReq = ''text/plain'' @ rest \<longrightarrow>
            getBody P req options = (Inr (JObj [(''text'', JStr buffer)]), []))
       \<and> (\<forall>rest. effective_contentType options webReq = ''multipart/form-data'' @ rest \<longrightarrow>
            getBody P req options = (Inr (JObj [(''raw'', JStr buffer)]), []))
       \<and> (\<not> startsWith (effective_contentType options webReq) ''application/json''
          \<and> \<not> startsWith (effective_contentType options webReq)
                 ''application/x-www-form-urlencoded''
          \<and> \<not> startsWith (effective_contentType options webReq) ''text/plain'' \<longrightarrow>
            getBody P req options = (Inr (JObj [(''raw'', JStr buffer)]), []))"
proof -
  have g: "getBody P req options =
             getBody_catch options (dispatch P (effective_contentType options webReq) buffer)"
    using assms by (simp add: getBody_of_try getBody_try_decoded)
  show ?thesis
  proof (intro conjI allI impI)
    fix rest assume "effective_contentType options webReq = ''application/json'' @ rest"
    with g show "getBody P req options = getBody_catch options (JSON_parse P buffer)"
      by (simp only: dispatch_json)
  next
    fix rest
    assume "effective_contentType options webReq = ''application/x-www-form-urlencoded'' @ rest"
    with g show "getBody P req options =
              getBody_catch options
                (case URLSearchParams P buffer of
                   Inl e \<Rightarrow> Inl e
                 | Inr es \<Rightarrow> Inr (string_record (Object_fromEntries es)))"
      by (simp only: dispatch_urlencoded)
  next
    fix rest assume "effective_contentType options webReq = ''text/plain'' @ rest"
    with g show "getBody P req options = (Inr (JObj [(''text'', JStr buffer)]), [])"
      by (simp only: dispatch_text getBody_catch_Inr)
  next
    fix rest assume "effective_contentType options webReq = ''multipart/form-data'' @ rest"
    with g show "getBody P req options = (Inr (JObj [(''raw'', JStr buffer)]), [])"
      by (simp add: dispatch_def getBody_catch_Inr)
  next
    assume "\<not> startsWith (effective_contentType options webReq) ''application/json''
          \<and> \<not> startsWith (effective_contentType options webReq)
                 ''application/x-www-form-urlencoded''
          \<and> \<not> startsWith (effective_contentType options webReq) ''text/plain''"
    with g show "getBody P req options = (Inr (JObj [(''raw'', JStr buffer)]), [])"
      by (simp add: dispatch_other getBody_catch_Inr)
  qed
qed

text \<open>
  Witness for C5: the body \<^verbatim>\<open>{"a":1}\<close> declared as
  \<^verbatim>\<open>application/json; charset=utf-8\<close> is decoded as JSON.
\<close>

theorem getBody_dispatch_witness:
  "toWebRequest ref_platform
     (node_request ''POST'' ''/submit'' ''application/json; charset=utf-8'' ''{\"a\":1}'')
     = Inr \<lparr>request_method = ''POST'', request_url = ''http://localhost/submit'',
            request_headers = [(''content-type'', ''application/json; charset=utf-8'')],
            request_body = Some (Inr ''{\"a\":1}'')\<rparr>
   \<and> effective_contentType no_options
         \<lparr>request_method = ''POST'', request_url = ''http://localhost/submit'',
          request_headers = [(''content-type'', ''application/json; charset=utf-8'')],
          request_body = Some (Inr ''{\"a\":1}'')\<rparr>
       = ''application/json'' @ ''; charset=utf-8''
   \<and> getBody ref_platform
         (node_request ''POST'' ''/submit'' ''application/json; charset=utf-8'' ''{\"a\":1}'')
         no_options
       = (Inr (JObj [(''a'', JNum 1)]), [])"
proof -
  let ?req = "node_request ''POST'' ''/submit'' ''application/json; charset=utf-8'' ''{\"a\":1}''"
  let ?w = "\<lparr>request_method = ''POST'', request_url = ''http://localhost/submit'',
            request_headers = [(''content-type'', ''application/json; charset=utf-8'')],
            request_body = Some (Inr ''{\"a\":1}'')\<rparr>"
  have w: "toWebRequest ref_platform ?req = Inr ?w"
    by code_simp
  have a: "arrayBuffer ?w = Inr ''{\"a\":1}''"
    by code_simp
  have d: "TextDecoder_decode ref_platform (or_else (encoding no_options) ''utf-8'') ''{\"a\":1}''
           = Inr ''{\"a\":1}''"
    by code_simp
  have n: "''{\"a\":1}'' \<noteq> []"
    by simp
  have r: "raw no_options \<noteq> Some True"
    by (simp add: no_options_def)
  have c: "effective_contentType no_options ?w = ''application/json'' @ ''; charset=utf-8''"
    by code_simp
  have j: "JSON_parse ref_platform ''{\"a\":1}'' = Inr (JObj [(''a'', JNum 1)])"
    by code_simp
  from getBody_dispatch [OF w a d n r] c
  have "getBody ref_platform ?req no_options
        = getBody_catch no_options (JSON_parse ref_platform ''{\"a\":1}'')"
    by blast
  with j have "getBody ref_platform ?req no_options = (Inr (JObj [(''a'', JNum 1)]), [])"
    by (simp add: getBody_catch_Inr)
  with w c show ?thesis by simp
qed

section \<open>Empty bodies\<close>

text \<open>
  Claim C7.  When the decoded body text is empty, \<^verbatim>\<open>getBody\<close> resolves to the empty
  object and calls no handler, whatever the options are: the test for the empty text
  stands before the test of \<open>raw\<close> and before the dispatch.
\<close>

theorem getBody_empty_text:
  assumes "toWebRequest P req = Inr webReq"
    and "arrayBuffer webReq = Inr ab"
    and "TextDecoder_decode P (or_else (encoding options) ''utf-8'') ab = Inr []"
  shows "getBody P req options = (Inr (JObj []), [])"
  using assms by (simp add: getBody_of_try getBody_try_decoded getBody_catch_def)

text \<open>
  Witness for C7: an empty \<^verbatim>\<open>POST\<close> body declared as JSON, with \<open>raw\<close> set.
\<close>

theorem getBody_empty_text_witness:
  "toWebRequest ref_platform (node_request ''POST'' ''/submit'' ''application/json'' [])
     = Inr \<lparr>request_method = ''POST'', request_url = ''http://localhost/submit'',
            request_headers = [(''content-type'', ''application/json'')],
            request_body = Some (Inr [])\<rparr>
   \<and> arrayBuffer \<lparr>request_method = ''POST'', request_url = ''http://localhost/submit'',
            request_headers = [(''content-type'', ''application/json'')],
            request_body = Some (Inr [])\<rparr> = Inr []
   \<and> TextDecoder_decode ref_platform
        (or_else (encoding (no_options\<lparr>raw := Some True\<rparr>)) ''utf-8'') [] = Inr []
   \<and> getBody ref_platform (node_request ''POST'' ''/submit'' ''application/json'' [])
        (no_options\<lparr>raw := Some True\<rparr>) = (Inr (JObj []), [])"
proof -
  let ?req = "node_request ''POST'' ''/submit'' ''application/json'' []"
  let ?w = "\<lparr>request_method = ''POST'', request_url = ''http://localhost/submit'',
            request_headers = [(''content-type'', ''application/json'')],
            request_body = Some (Inr [])\<rparr>"
  let ?opts = "no_options\<lparr>raw := Some True\<rparr>"
  have w: "toWebRequest ref_platform ?req = Inr ?w"
    by code_simp
  have a: "arrayBuffer ?w = Inr []"
    by code_simp
  have d: "TextDecoder_decode ref_platform (or_else (encoding ?opts) ''utf-8'') [] = Inr []"
    by code_simp
  from getBody_empty_text [OF w a d] w a d show ?thesis by simp
qed

section \<open>Query parameters\<close>

text \<open>
  Claim C8.  For the request \<^verbatim>\<open>GET /x?a=1&a=2&b=hello\<close>, \<^verbatim>\<open>getParams\<close> yields exactly
  the two properties \<open>a = 2\<close> and \<open>b = hello\<close>.  In general, what \<^verbatim>\<open>getParams\<close> returns
  has every key once, and looking a key up finds the value of the last search
  parameter of the canonical URL with that key.
\<close>

theorem getParams_last_value_wins:
  "getParams ref_platform
     (NodeRequest \<lparr>req_method = Some ''GET'', url = Some ''/x?a=1&a=2&b=hello'', headers = [],
                   stream = Inr []\<rparr>)
     = Inr [(''a'', ''2''), (''b'', ''hello'')]
   \<and> (getParams P req = Inr ps \<longrightarrow>
        distinct (map fst ps)
        \<and> (\<exists>webReq u. toWebRequest P req = Inr webReq
              \<and> URL_parse P (request_url webReq) = Inr u
              \<and> map_of ps = map_of (rev (searchParams u))))"
proof (intro conjI impI)
  show "getParams ref_platform
     (NodeRequest \<lparr>req_method = Some ''GET'', url = Some ''/x?a=1&a=2&b=hello'', headers = [],
                   stream = Inr []\<rparr>)
     = Inr [(''a'', ''2''), (''b'', ''hello'')]"
    by code_simp
next
  assume g: "getParams P req = Inr ps"
  then obtain webReq u where w: "toWebRequest P req = Inr webReq"
    and u: "URL_parse P (request_url webReq) = Inr u"
    and ps: "ps = Object_fromEntries (searchParams u)"
    by (auto simp: getParams_def split: sum.splits)
  from ps show "distinct (map fst ps)"
    by (simp add: distinct_fromEntries)
  from w u ps show "\<exists>webReq u. toWebRequest P req = Inr webReq
              \<and> URL_parse P (request_url webReq) = Inr u
              \<and> map_of ps = map_of (rev (searchParams u))"
    by (auto simp: map_of_fromEntries)
qed

text \<open>Witness for C8: the key \<open>k\<close> given twice.\<close>

theorem getParams_last_value_wins_witness:
  "getParams ref_platform
     (NodeRequest \<lparr>req_method = Some ''GET'', url = Some ''/x?k=v&k=w'', headers = [],
                   stream = Inr []\<rparr>) = Inr [(''k'', ''w'')]
   \<and> distinct (map fst [(''k'', ''w'')])
   \<and> (\<exists>webReq u. toWebRequest ref_platform
          (NodeRequest \<lparr>req_method = Some ''GET'', url = Some ''/x?k=v&k=w'', headers = [],
                        stream = Inr []\<rparr>) = Inr webReq
        \<and> URL_parse ref_platform (request_url webReq) = Inr u
        \<and> map_of [(''k'', ''w'')] = map_of (rev (searchParams u)))"
proof -
  let ?req = "NodeRequest \<lparr>req_method = Some ''GET'', url = Some ''/x?k=v&k=w'', headers = [],
                   stream = Inr []\<rparr>"
  have g: "getParams ref_platform ?req = Inr [(''k'', ''w'')]"
    by code_simp
  from getParams_last_value_wins [of ref_platform ?req "[(''k'', ''w'')]"] g
  show ?thesis by blast
qed

section \<open>The shape of the result\<close>




section \<open>Calls of the error handler\<close>

text \<open>
  Claim C10 says that whenever \<open>onError\<close> is called the result is the empty object.
  It is not when the handler throws: the stream fails, the handler is called once with
  that error and throws it, and the promise rejects.
\<close>

theorem onError_at_most_once_counterexample:
  "getBody ref_platform
     (NodeRequest \<lparr>req_method = Some ''POST'', url = Some ''/submit'', headers = [],
                   stream = Inl (StreamError ''aborted'')\<rparr>)
     (no_options\<lparr>onError := Some rethrowing\<rparr>)
   = (Inl (StreamError ''aborted''), [StreamError ''aborted''])"
  by code_simp

text \<open>
  Claim C10, amended.  In one call of \<^verbatim>\<open>getBody\<close> the handler \<open>onError\<close> is called at
  most once.  When it is called, an error was caught from the \<^verbatim>\<open>try\<close> block and the
  handler is called with that error; the result is the empty object when the handler
  returns, and a rejection with what the handler threw when it throws.  When the
  \<^verbatim>\<open>try\<close> block returns a value (the empty object for an empty body included) that value
  is the result and the handler is not called; nor is it called when normalisation
  throws.
\<close>

theorem onError_at_most_once:
  "length (snd (getBody P req options)) \<le> 1
   \<and> (snd (getBody P req options) \<noteq> [] \<longrightarrow>
        (\<exists>webReq err h. toWebRequest P req = Inr webReq
            \<and> getBody_try P webReq options = Inl err
            \<and> onError options = Some h
            \<and> snd (getBody P req options) = [err]
            \<and> fst (getBody P req options)
                = (case h err of None \<Rightarrow> Inr (JObj []) | Some thrown \<Rightarrow> Inl thrown)))
   \<and> (\<forall>webReq v. toWebRequest P req = Inr webReq \<and> getBody_try P webReq options = Inr v \<longrightarrow>
        getBody P req options = (Inr v, []))
   \<and> (\<forall>e. toWebRequest P req = Inl e \<longrightarrow> getBody P req options = (Inl e, []))"
proof (cases "toWebRequest P req")
  case (Inl e)
  then show ?thesis by (simp add: getBody_rejects)
next
  case (Inr webReq)
  show ?thesis
  proof (cases "getBody_try P webReq options")
    case r: (Inr v)
    with Inr show ?thesis
      by (simp add: getBody_of_try getBody_catch_Inr)
  next
    case (Inl err)
    show ?thesis
    proof (cases "onError options")
      case None
      with Inr Inl show ?thesis
        by (simp add: getBody_of_try getBody_catch_no_handler)
    next
      case (Some h)
      show ?thesis
      proof (cases "h err")
        case None
        with Inr Inl Some show ?thesis
          by (simp add: getBody_of_try getBody_catch_returns)
      next
        case t: (Some thrown)
        with Inr Inl Some show ?thesis
          by (simp add: getBody_of_try getBody_catch_throws)
      qed
    qed
  qed
qed

text \<open>
  Witness for C10: a stream that fails is reported once to a handler that returns and
  gives the empty object; a text body is returned without a call; a malformed URL
  rejects without a call.
\<close>

theorem onError_at_most_once_witness:
  "snd (getBody ref_platform
          (NodeRequest \<lparr>req_method = Some ''POST'', url = Some ''/submit'', headers = [],
                        stream = Inl (StreamError ''aborted'')\<rparr>)
          (no_options\<lparr>onError := Some observer\<rparr>)) \<noteq> []
   \<and> getBody ref_platform
          (NodeRequest \<lparr>req_method = Some ''POST'', url = Some ''/submit'', headers = [],
                        stream = Inl (StreamError ''aborted'')\<rparr>)
          (no_options\<lparr>onError := Some observer\<rparr>) = (Inr (JObj []), [StreamError ''aborted''])
   \<and> toWebRequest ref_platform (node_request ''POST'' ''/submit'' ''text/plain'' ''hi'')
       = Inr \<lparr>request_method = ''POST'', request_url = ''http://localhost/submit'',
              request_headers = [(''content-type'', ''text/plain'')],
              request_body = Some (Inr ''hi'')\<rparr>
   \<and> getBody ref_platform (node_request ''POST'' ''/submit'' ''text/plain'' ''hi'')
        (no_options\<lparr>onError := Some observer\<rparr>) = (Inr (JObj [(''text'', JStr ''hi'')]), [])
   \<and> getBody ref_platform
        (NodeRequest \<lparr>req_method = Some ''POST'', url = Some ''http://'', headers = [],
                      stream = Inr ''hi''\<rparr>)
        (no_options\<lparr>onError := Some observer\<rparr>) = (Inl TypeError, [])"
proof -
  let ?bad = "NodeRequest \<lparr>req_method = Some ''POST'', url = Some ''/submit'', headers = [],
                        stream = Inl (StreamError ''aborted'')\<rparr>"
  let ?req = "node_request ''POST'' ''/submit'' ''text/plain'' ''hi''"
  let ?w = "\<lparr>request_method = ''POST'', request_url = ''http://localhost/submit'',
              request_headers = [(''content-type'', ''text/plain'')],
              request_body = Some (Inr ''hi'')\<rparr>"
  let ?mal = "NodeRequest \<lparr>req_method = Some ''POST'', url = Some ''http://'', headers = [],
                      stream = Inr ''hi''\<rparr>"
  let ?opts = "no_options\<lparr>onError := Some observer\<rparr>"
  have s: "snd (getBody ref_platform ?bad ?opts) = [StreamError ''aborted'']"
    by code_simp
  then have ne: "snd (getBody ref_platform ?bad ?opts) \<noteq> []"
    by simp
  with onError_at_most_once [of ref_platform ?bad ?opts]
  obtain webReq err h where "onError ?opts = Some h"
    and e: "snd (getBody ref_platform ?bad ?opts) = [err]"
    and f: "fst (getBody ref_platform ?bad ?opts)
             = (case h err of None \<Rightarrow> Inr (JObj []) | Some thrown \<Rightarrow> Inl thrown)"
    by blast
  then have "h = observer" by simp
  with f have "fst (getBody ref_platform ?bad ?opts) = Inr (JObj [])"
    by (simp add: observer_def)
  with s have 1: "getBody ref_platform ?bad ?opts = (Inr (JObj []), [StreamError ''aborted''])"
    by (simp add: prod_eq_iff)
  have w: "toWebRequest ref_platform ?req = Inr ?w"
    by code_simp
  have t: "getBody_try ref_platform ?w ?opts = Inr (JObj [(''text'', JStr ''hi'')])"
    by code_simp
  from onError_at_most_once [of ref_platform ?req ?opts] w t
  have 2: "getBody ref_platform ?req ?opts = (Inr (JObj [(''text'', JStr ''hi'')]), [])"
    by blast
  have m: "toWebRequest ref_platform ?mal = Inl TypeError"
    by code_simp
  with onError_at_most_once [of ref_platform ?mal ?opts]
  have 3: "getBody ref_platform ?mal ?opts = (Inl TypeError, [])"
    by blast
  from ne 1 w 2 3 show ?thesis by simp
qed

end
